theory Spec2Isabelle
  imports Main
begin

section \<open>The parsed document\<close>

text \<open>
  The XML parser is an external library. The views of \<^verbatim>\<open>report/xml.py\<close> read a parsed
  document through its counters \<^verbatim>\<open>tests\<close>, \<^verbatim>\<open>skipped\<close>, \<^verbatim>\<open>failures\<close>, \<^verbatim>\<open>errors\<close>, its
  \<^verbatim>\<open>name\<close>, and by iterating it: a document is an ordered sequence of suites, a suite an
  ordered sequence of cases, a case has a \<^verbatim>\<open>name\<close>, a \<^verbatim>\<open>classname\<close> and a \<^verbatim>\<open>result\<close> that
  is \<^verbatim>\<open>None\<close> or a result object. Python integers are unbounded, hence \<^typ>\<open>int\<close>.
\<close>

datatype JResult = JFailure | JError | JSkipped

record JCase =
  jc_name :: string
  jc_classname :: string
  jc_result :: "JResult option"

record JSuite =
  js_name :: string
  js_cases :: "JCase list"

record JUnitXml =
  jx_name :: string
  jx_tests :: int
  jx_skipped :: int
  jx_failures :: int
  jx_errors :: int
  jx_suites :: "JSuite list"

text \<open>Exceptions are values; \<^verbatim>\<open>Raised\<close> stands for any exception of the caller's code.\<close>

datatype exn = StopIteration | ParseError | Raised string

section \<open>Outcome\<close>

text \<open>\<^verbatim>\<open>class _Outcome\<close>: the object keeps the document and every property reads it.\<close>

record Outcome =
  o_report :: JUnitXml

definition Outcome_init :: "JUnitXml \<Rightarrow> Outcome" where
  "Outcome_init rep = \<lparr>o_report = rep\<rparr>"

definition total :: "Outcome \<Rightarrow> int" where
  "total self = jx_tests (o_report self)"

definition skipped :: "Outcome \<Rightarrow> int" where
  "skipped self = jx_skipped (o_report self)"

definition failed :: "Outcome \<Rightarrow> int" where
  "failed self = jx_failures (o_report self)"

definition errored :: "Outcome \<Rightarrow> int" where
  "errored self = jx_errors (o_report self)"

definition passed :: "Outcome \<Rightarrow> int" where
  "passed self = total self - skipped self - failed self - errored self"

text \<open>\<^verbatim>\<open>as_dict\<close>: a Python dict keeps insertion order, so an association list.\<close>

definition as_dict :: "Outcome \<Rightarrow> (string \<times> int) list" where
  "as_dict self =
     [(''total'', total self),
      (''skipped'', skipped self),
      (''failed'', failed self),
      (''errored'', errored self),
      (''passed'', passed self)]"

section \<open>Testcase\<close>

record Testcase =
  tc_case :: JCase

definition Testcase_init :: "JCase \<Rightarrow> Testcase" where
  "Testcase_init c = \<lparr>tc_case = c\<rparr>"

definition status :: "Testcase \<Rightarrow> string" where
  "status self = (if jc_result (tc_case self) = None then ''Passed'' else ''Failed'')"

text \<open>\<^verbatim>\<open>name(self, suite_prefix=False)\<close>: the f-string joins classname, a colon and name.\<close>

definition Testcase_name :: "Testcase \<Rightarrow> bool \<Rightarrow> string" where
  "Testcase_name self suite_prefix =
     (if \<not> suite_prefix then jc_name (tc_case self)
      else jc_classname (tc_case self) @ '':'' @ jc_name (tc_case self))"

section \<open>Testsuite\<close>

text \<open>
  \<^verbatim>\<open>class _Testsuite(Iterator[_Testcase])\<close>. \<^verbatim>\<open>iter(suite)\<close> is the parser's iterator over
  the cases of the suite: a cursor, modelled by the cases it has not produced yet. Each
  method takes the view and returns it updated; \<^verbatim>\<open>__next__\<close> returns the exception or
  the wrapped case.
\<close>

record Testsuite =
  ts_suite :: JSuite
  ts_iter_suite :: "JCase list"

definition Testsuite_init :: "JSuite \<Rightarrow> Testsuite" where
  "Testsuite_init s = \<lparr>ts_suite = s, ts_iter_suite = js_cases s\<rparr>"

definition Testsuite_iter :: "Testsuite \<Rightarrow> Testsuite" where
  "Testsuite_iter self = self"

definition Testsuite_next :: "Testsuite \<Rightarrow> (exn + Testcase) \<times> Testsuite" where
  "Testsuite_next self =
     (case ts_iter_suite self of
        [] \<Rightarrow> (Inl StopIteration, self)
      | c # rest \<Rightarrow> (Inr (Testcase_init c), self\<lparr>ts_iter_suite := rest\<rparr>))"

definition Testsuite_len :: "Testsuite \<Rightarrow> nat" where
  "Testsuite_len self = length (js_cases (ts_suite self))"

definition Testsuite_name :: "Testsuite \<Rightarrow> string" where
  "Testsuite_name self = js_name (ts_suite self)"

text \<open>
  Iterating a view, as \<^verbatim>\<open>for case in suite\<close> or \<^verbatim>\<open>list(suite)\<close> does: \<^verbatim>\<open>__iter__\<close>
  once, then \<^verbatim>\<open>__next__\<close> until it raises; \<^verbatim>\<open>StopIteration\<close> ends the loop, any other
  exception leaves it.
\<close>

function Testsuite_loop :: "Testsuite \<Rightarrow> (exn + Testcase list) \<times> Testsuite" where
  "Testsuite_loop self =
     (case Testsuite_next self of
        (Inl e, self') \<Rightarrow> (if e = StopIteration then (Inr [], self') else (Inl e, self'))
      | (Inr x, self') \<Rightarrow>
          (case Testsuite_loop self' of
             (Inl e, self'') \<Rightarrow> (Inl e, self'')
           | (Inr xs, self'') \<Rightarrow> (Inr (x # xs), self'')))"
  by pat_completeness auto

termination Testsuite_loop
  by (relation "measure (\<lambda>self. length (ts_iter_suite self))")
     (auto simp: Testsuite_next_def split: list.splits)

declare Testsuite_loop.simps [simp del]

definition Testsuite_iterate :: "Testsuite \<Rightarrow> (exn + Testcase list) \<times> Testsuite" where
  "Testsuite_iterate self = Testsuite_loop (Testsuite_iter self)"

section \<open>Testsuites\<close>

text \<open>\<^verbatim>\<open>class _Testsuites(Iterator[_Testsuite])\<close>, the same cursor over the suites.\<close>

record Testsuites =
  tss_xml :: JUnitXml
  tss_suites :: "JSuite list"

definition Testsuites_init :: "JUnitXml \<Rightarrow> Testsuites" where
  "Testsuites_init xml = \<lparr>tss_xml = xml, tss_suites = jx_suites xml\<rparr>"

definition Testsuites_iter :: "Testsuites \<Rightarrow> Testsuites" where
  "Testsuites_iter self = self"

definition Testsuites_next :: "Testsuites \<Rightarrow> (exn + Testsuite) \<times> Testsuites" where
  "Testsuites_next self =
     (case tss_suites self of
        [] \<Rightarrow> (Inl StopIteration, self)
      | s # rest \<Rightarrow> (Inr (Testsuite_init s), self\<lparr>tss_suites := rest\<rparr>))"

definition Testsuites_len :: "Testsuites \<Rightarrow> nat" where
  "Testsuites_len self = length (jx_suites (tss_xml self))"

definition Testsuites_name :: "Testsuites \<Rightarrow> string" where
  "Testsuites_name self = jx_name (tss_xml self)"

function Testsuites_loop :: "Testsuites \<Rightarrow> (exn + Testsuite list) \<times> Testsuites" where
  "Testsuites_loop self =
     (case Testsuites_next self of
        (Inl e, self') \<Rightarrow> (if e = StopIteration then (Inr [], self') else (Inl e, self'))
      | (Inr x, self') \<Rightarrow>
          (case Testsuites_loop self' of
             (Inl e, self'') \<Rightarrow> (Inl e, self'')
           | (Inr xs, self'') \<Rightarrow> (Inr (x # xs), self'')))"
  by pat_completeness auto

termination Testsuites_loop
  by (relation "measure (\<lambda>self. length (tss_suites self))")
     (auto simp: Testsuites_next_def split: list.splits)

declare Testsuites_loop.simps [simp del]

definition Testsuites_iterate :: "Testsuites \<Rightarrow> (exn + Testsuite list) \<times> Testsuites" where
  "Testsuites_iterate self = Testsuites_loop (Testsuites_iter self)"

section \<open>TestXml and its two implementations\<close>

text \<open>
  \<^verbatim>\<open>TestXml\<close> is an abstract class with the properties \<^verbatim>\<open>name\<close>, \<^verbatim>\<open>outcome\<close> and
  \<^verbatim>\<open>testsuites\<close>. Its implementations are the constructors of one datatype, and each
  property dispatches on the constructor. \<^verbatim>\<open>PytestXml._xml\<close> is declared as a
  \<^verbatim>\<open>TestXml\<close>, so the datatype is recursive.
\<close>

datatype TestXml =
    TestXmlFromJUnit JUnitXml Testsuites Outcome
  | PytestXml TestXml string

definition TestXmlFromJUnit_init :: "JUnitXml \<Rightarrow> TestXml" where
  "TestXmlFromJUnit_init xml = TestXmlFromJUnit xml (Testsuites_init xml) (Outcome_init xml)"

text \<open>
  \<^verbatim>\<open>JUnitXml.fromfile\<close> belongs to the parser: it is a parameter, and what it raises
  leaves the constructor.
\<close>

definition PytestXml_init :: "(string \<Rightarrow> exn + JUnitXml) \<Rightarrow> string \<Rightarrow> exn + TestXml" where
  "PytestXml_init fromfile path =
     (case fromfile path of
        Inl e \<Rightarrow> Inl e
      | Inr doc \<Rightarrow> Inr (PytestXml (TestXmlFromJUnit_init doc) path))"

fun name :: "TestXml \<Rightarrow> string" where
  "name (TestXmlFromJUnit xml tss oc) = jx_name xml"
| "name (PytestXml xml path) = path"

fun outcome :: "TestXml \<Rightarrow> Outcome" where
  "outcome (TestXmlFromJUnit xml tss oc) = oc"
| "outcome (PytestXml xml path) = outcome xml"

fun testsuites :: "TestXml \<Rightarrow> Testsuites" where
  "testsuites (TestXmlFromJUnit xml tss oc) = tss"
| "testsuites (PytestXml xml path) = testsuites xml"

section \<open>Formatting an integer\<close>

text \<open>
  An f-string field holding an \<^verbatim>\<open>int\<close> is its \<^verbatim>\<open>str\<close>: decimal digits, no leading zero,
  a minus sign when negative.
\<close>

definition digit_char :: "nat \<Rightarrow> char" where
  "digit_char d = ''0123456789'' ! d"

fun str_nat :: "nat \<Rightarrow> string" where
  "str_nat n = (if n < 10 then [digit_char n] else str_nat (n div 10) @ [digit_char (n mod 10)])"

declare str_nat.simps [simp del]

definition str_int :: "int \<Rightarrow> string" where
  "str_int i = (if i < 0 then ''-'' @ str_nat (nat (- i)) else str_nat (nat i))"

section \<open>ReportPage\<close>

text \<open>
  \<^verbatim>\<open>class ReportPage\<close>: the document and the buffer \<^verbatim>\<open>_content\<close>. The records that
  \<^verbatim>\<open>_logger.info\<close> emits are appended to a list that the methods pass along.
\<close>

record ReportPage =
  rp_xml :: TestXml
  rp_content :: string

definition ReportPage_init :: "TestXml \<Rightarrow> ReportPage" where
  "ReportPage_init xml = \<lparr>rp_xml = xml, rp_content = []\<rparr>"

definition content :: "ReportPage \<Rightarrow> string" where
  "content self = rp_content self"

definition build_results_table ::
  "ReportPage \<Rightarrow> string list \<Rightarrow> string \<times> ReportPage \<times> string list" where
  \<open>build_results_table self lg =
     (''<h1>Test report:</h1>\<newline>''
        @ ''Total: '' @ str_int (total (outcome (rp_xml self))) @ ''\<newline>''
        @ ''Passed: '' @ str_int (passed (outcome (rp_xml self))) @ ''\<newline>''
        @ ''Failed: '' @ str_int (failed (outcome (rp_xml self))) @ ''\<newline>''
        @ ''Skipped: '' @ str_int (skipped (outcome (rp_xml self))) @ ''\<newline>''
        @ ''Errored: '' @ str_int (errored (outcome (rp_xml self))) @ ''\<newline>'',
      self,
      lg @ [''Collecting statistics from "'' @ name (rp_xml self) @ ''" file''])\<close>

text \<open>
  \<^verbatim>\<open>__enter__\<close>: \<^verbatim>\<open>self._content += self.build_results_table()\<close> reads the buffer, calls
  the builder and stores the concatenation. The test \<^verbatim>\<open>not self._content\<close> holds of the
  empty string only.
\<close>

definition ReportPage_enter :: "ReportPage \<Rightarrow> string list \<Rightarrow> ReportPage \<times> string list" where
  "ReportPage_enter self lg =
     (if rp_content self = []
      then (case build_results_table self lg of
              (text, self', lg') \<Rightarrow> (self'\<lparr>rp_content := rp_content self @ text\<rparr>, lg'))
      else (self, lg))"

text \<open>\<^verbatim>\<open>__exit__\<close> gets the exception of the block, if any, and returns \<^verbatim>\<open>None\<close>.\<close>

definition ReportPage_exit :: "ReportPage \<Rightarrow> exn option \<Rightarrow> ReportPage" where
  "ReportPage_exit self exception = self\<lparr>rp_content := []\<rparr>"

text \<open>
  \<^verbatim>\<open>with page as p: body\<close>: \<^verbatim>\<open>__enter__\<close>, the block, then \<^verbatim>\<open>__exit__\<close> on every way
  out of the block. \<^verbatim>\<open>__exit__\<close> returns \<^verbatim>\<open>None\<close>, so an exception of the block goes on
  to the caller.
\<close>

definition with_ReportPage ::
  "ReportPage \<Rightarrow> string list
   \<Rightarrow> (ReportPage \<Rightarrow> string list \<Rightarrow> (exn + 'a) \<times> ReportPage \<times> string list)
   \<Rightarrow> (exn + 'a) \<times> ReportPage \<times> string list" where
  "with_ReportPage page lg body =
     (case ReportPage_enter page lg of
        (p1, lg1) \<Rightarrow>
          (case body p1 lg1 of
             (r, p2, lg2) \<Rightarrow>
               (r, ReportPage_exit p2 (case r of Inl e \<Rightarrow> Some e | Inr v \<Rightarrow> None), lg2)))"

text \<open>
  What a program can do with a page it has built: call its methods, in any order. A run
  of calls takes the page and the log through them. Nothing else writes \<^verbatim>\<open>_content\<close>.
\<close>

datatype call = Enter | Build | Exit "exn option"

fun calls :: "call list \<Rightarrow> ReportPage \<times> string list \<Rightarrow> ReportPage \<times> string list" where
  "calls [] s = s"
| "calls (Enter # cs) (p, lg) = calls cs (ReportPage_enter p lg)"
| "calls (Build # cs) (p, lg) =
     (case build_results_table p lg of (text, p', lg') \<Rightarrow> calls cs (p', lg'))"
| "calls (Exit exception # cs) (p, lg) = calls cs (ReportPage_exit p exception, lg)"

text \<open>
  The report text in the words of the specification: a title line, then one line
  \<^verbatim>\<open>Label: value\<close> per counter of the outcome, in the order Total, Passed, Failed,
  Skipped, Errored.
\<close>

definition spec_counter_line :: "string \<times> int \<Rightarrow> string" where
  "spec_counter_line lv = fst lv @ '': '' @ str_int (snd lv) @ ''\<newline>''"

definition spec_report_text :: "Outcome \<Rightarrow> string" where
  "spec_report_text oc =
     ''<h1>Test report:</h1>\<newline>''
       @ concat (map spec_counter_line
           [(''Total'', total oc), (''Passed'', passed oc), (''Failed'', failed oc),
            (''Skipped'', skipped oc), (''Errored'', errored oc)])"

section \<open>Outcome: the counters\<close>

text \<open>
  C1. For every document with raw counters T, S, F, E the Outcome view exposes total,
  skipped, failed and errored equal to those counters, and passed is T - S - F - E as an
  integer subtraction: nothing clamps it, so it is negative exactly when the counters are
  inconsistent (T < S + F + E).
\<close>

theorem Outcome_counters:
  "total (Outcome_init d) = jx_tests d
   \<and> skipped (Outcome_init d) = jx_skipped d
   \<and> failed (Outcome_init d) = jx_failures d
   \<and> errored (Outcome_init d) = jx_errors d
   \<and> passed (Outcome_init d) = jx_tests d - jx_skipped d - jx_failures d - jx_errors d
   \<and> (passed (Outcome_init d) < 0) = (jx_tests d < jx_skipped d + jx_failures d + jx_errors d)"
  by (auto simp: Outcome_init_def total_def skipped_def failed_def errored_def passed_def)

theorem Outcome_counters_witness:
  "passed (Outcome_init \<lparr>jx_name = ''r'', jx_tests = 1, jx_skipped = 1, jx_failures = 1,
                          jx_errors = 0, jx_suites = []\<rparr>) = - 1"
  using Outcome_counters [of "\<lparr>jx_name = ''r'', jx_tests = 1, jx_skipped = 1, jx_failures = 1,
                               jx_errors = 0, jx_suites = []\<rparr>"]
  by simp

section \<open>Testcase: status and name\<close>

text \<open>
  C3. For every case record, status returns one of the two strings "Passed" and "Failed",
  and it returns "Failed" if and only if the case carries a result object.
\<close>

theorem status_binary:
  "(status (Testcase_init c) = ''Passed'' \<or> status (Testcase_init c) = ''Failed'')
   \<and> (status (Testcase_init c) = ''Failed'') = (jc_result c \<noteq> None)
   \<and> (status (Testcase_init c) = ''Passed'') = (jc_result c = None)"
  by (simp add: status_def Testcase_init_def)

text \<open>
  C4. For every case record with classname c and name n, name with suite_prefix true is
  c, a colon, then n; with suite_prefix false it is n.
\<close>

theorem Testcase_name_prefix:
  "Testcase_name (Testcase_init k) True = jc_classname k @ '':'' @ jc_name k
   \<and> Testcase_name (Testcase_init k) False = jc_name k"
  by (simp add: Testcase_name_def Testcase_init_def)

section \<open>Iteration\<close>

lemma Testsuite_loop_remaining:
  "Testsuite_loop self
     = (Inr (map Testcase_init (ts_iter_suite self)), self\<lparr>ts_iter_suite := []\<rparr>)"
proof (induction "ts_iter_suite self" arbitrary: self)
  case Nil
  then show ?case
    by (subst Testsuite_loop.simps) (simp add: Testsuite_next_def split: list.splits)
next
  case (Cons c rest)
  have eq: "ts_iter_suite self = c # rest"
    using Cons.hyps(2) by simp
  then have nx: "Testsuite_next self = (Inr (Testcase_init c), self\<lparr>ts_iter_suite := rest\<rparr>)"
    by (simp add: Testsuite_next_def)
  have "Testsuite_loop (self\<lparr>ts_iter_suite := rest\<rparr>)
          = (Inr (map Testcase_init rest), self\<lparr>ts_iter_suite := []\<rparr>)"
    using Cons.hyps(1) [of "self\<lparr>ts_iter_suite := rest\<rparr>"] by simp
  with nx eq show ?case
    by (subst Testsuite_loop.simps) simp
qed

lemma Testsuite_next_exhausted:
  "ts_iter_suite self = [] \<Longrightarrow> Testsuite_next self = (Inl StopIteration, self)"
  by (simp add: Testsuite_next_def)

lemma Testsuite_next_exhausted_pow:
  "ts_iter_suite self = [] \<Longrightarrow> ((snd \<circ> Testsuite_next) ^^ k) self = self"
  by (induction k) (simp_all add: Testsuite_next_exhausted)

lemma Testsuites_loop_remaining:
  "Testsuites_loop self
     = (Inr (map Testsuite_init (tss_suites self)), self\<lparr>tss_suites := []\<rparr>)"
proof (induction "tss_suites self" arbitrary: self)
  case Nil
  then show ?case
    by (subst Testsuites_loop.simps) (simp add: Testsuites_next_def split: list.splits)
next
  case (Cons s rest)
  have eq: "tss_suites self = s # rest"
    using Cons.hyps(2) by simp
  then have nx: "Testsuites_next self = (Inr (Testsuite_init s), self\<lparr>tss_suites := rest\<rparr>)"
    by (simp add: Testsuites_next_def)
  have "Testsuites_loop (self\<lparr>tss_suites := rest\<rparr>)
          = (Inr (map Testsuite_init rest), self\<lparr>tss_suites := []\<rparr>)"
    using Cons.hyps(1) [of "self\<lparr>tss_suites := rest\<rparr>"] by simp
  with nx eq show ?case
    by (subst Testsuites_loop.simps) simp
qed

lemma Testsuites_next_exhausted:
  "tss_suites self = [] \<Longrightarrow> Testsuites_next self = (Inl StopIteration, self)"
  by (simp add: Testsuites_next_def)

lemma Testsuites_next_exhausted_pow:
  "tss_suites self = [] \<Longrightarrow> ((snd \<circ> Testsuites_next) ^^ k) self = self"
  by (induction k) (simp_all add: Testsuites_next_exhausted)

text \<open>
  C5. Iterating a fresh Testsuites view over a document yields the Testsuite views of its
  suites, one per suite and in document order; iterating a fresh Testsuite view yields
  the Testcase views of its cases, one per case and in document order. Once a view is
  exhausted, every further request, after any number of earlier ones, raises
  StopIteration: the iteration has returned, and no element comes again.
\<close>

theorem iteration_in_document_order:
  "fst (Testsuites_iterate (Testsuites_init d)) = Inr (map Testsuite_init (jx_suites d))
   \<and> (\<forall>k. fst (Testsuites_next
               (((snd \<circ> Testsuites_next) ^^ k) (snd (Testsuites_iterate (Testsuites_init d)))))
           = Inl StopIteration)
   \<and> fst (Testsuite_iterate (Testsuite_init s)) = Inr (map Testcase_init (js_cases s))
   \<and> (\<forall>k. fst (Testsuite_next
               (((snd \<circ> Testsuite_next) ^^ k) (snd (Testsuite_iterate (Testsuite_init s)))))
           = Inl StopIteration)"
proof -
  let ?e = "snd (Testsuites_iterate (Testsuites_init d))"
  let ?f = "snd (Testsuite_iterate (Testsuite_init s))"
  have a: "fst (Testsuites_iterate (Testsuites_init d)) = Inr (map Testsuite_init (jx_suites d))"
    by (simp add: Testsuites_iterate_def Testsuites_iter_def Testsuites_loop_remaining
        Testsuites_init_def)
  have e: "tss_suites ?e = []"
    by (simp add: Testsuites_iterate_def Testsuites_iter_def Testsuites_loop_remaining)
  have b: "fst (Testsuite_iterate (Testsuite_init s)) = Inr (map Testcase_init (js_cases s))"
    by (simp add: Testsuite_iterate_def Testsuite_iter_def Testsuite_loop_remaining
        Testsuite_init_def)
  have f: "ts_iter_suite ?f = []"
    by (simp add: Testsuite_iterate_def Testsuite_iter_def Testsuite_loop_remaining)
  have c: "fst (Testsuites_next (((snd \<circ> Testsuites_next) ^^ k) ?e)) = Inl StopIteration" for k
    using e by (simp add: Testsuites_next_exhausted_pow Testsuites_next_exhausted)
  have g: "fst (Testsuite_next (((snd \<circ> Testsuite_next) ^^ k) ?f)) = Inl StopIteration" for k
    using f by (simp add: Testsuite_next_exhausted_pow Testsuite_next_exhausted)
  from a b c g show ?thesis by blast
qed

section \<open>TestXml: the renaming variant\<close>

text \<open>
  C9. When the parser returns the document d for the path p, PytestXml over p is built,
  its name is p, whatever the name field of d, and its outcome and testsuites are those
  of the base adapter over d.
\<close>

theorem PytestXml_renames_and_delegates:
  "fromfile p = Inr d \<Longrightarrow>
     (case PytestXml_init fromfile p of
        Inl e \<Rightarrow> False
      | Inr x \<Rightarrow>
          name x = p
          \<and> outcome x = outcome (TestXmlFromJUnit_init d)
          \<and> testsuites x = testsuites (TestXmlFromJUnit_init d))
     \<and> name (TestXmlFromJUnit_init d) = jx_name d"
  by (simp add: PytestXml_init_def TestXmlFromJUnit_init_def)

theorem PytestXml_renames_and_delegates_witness:
  "name (projr (PytestXml_init
      (\<lambda>path. Inr \<lparr>jx_name = ''pytest'', jx_tests = 10, jx_skipped = 1, jx_failures = 2,
                    jx_errors = 0, jx_suites = []\<rparr>) ''report.xml'')) = ''report.xml''
   \<and> total (outcome (projr (PytestXml_init
      (\<lambda>path. Inr \<lparr>jx_name = ''pytest'', jx_tests = 10, jx_skipped = 1, jx_failures = 2,
                    jx_errors = 0, jx_suites = []\<rparr>) ''report.xml''))) = 10"
  using PytestXml_renames_and_delegates
    [of "\<lambda>path. Inr \<lparr>jx_name = ''pytest'', jx_tests = 10, jx_skipped = 1, jx_failures = 2,
                      jx_errors = 0, jx_suites = []\<rparr>"
        "''report.xml''"
        "\<lparr>jx_name = ''pytest'', jx_tests = 10, jx_skipped = 1, jx_failures = 2,
          jx_errors = 0, jx_suites = []\<rparr>"]
  by (simp add: TestXmlFromJUnit_init_def Outcome_init_def total_def split: sum.splits)

section \<open>ReportPage\<close>

lemma build_results_table_text:
  "fst (build_results_table p lg) = spec_report_text (outcome (rp_xml p))"
  by (simp add: build_results_table_def spec_report_text_def spec_counter_line_def)

lemma build_results_table_page:
  "fst (snd (build_results_table p lg)) = p"
  by (simp add: build_results_table_def)

lemma ReportPage_enter_empty:
  "rp_content p = [] \<Longrightarrow>
     fst (ReportPage_enter p lg) = p\<lparr>rp_content := spec_report_text (outcome (rp_xml p))\<rparr>"
  by (simp add: ReportPage_enter_def build_results_table_def spec_report_text_def
      spec_counter_line_def)

lemma ReportPage_enter_nonempty:
  "rp_content p \<noteq> [] \<Longrightarrow> ReportPage_enter p lg = (p, lg)"
  by (simp add: ReportPage_enter_def)

lemma spec_report_text_nonempty:
  "spec_report_text oc \<noteq> []"
  by (simp add: spec_report_text_def)

lemma calls_content:
  "rp_content (fst s) = [] \<or> rp_content (fst s) = spec_report_text (outcome (rp_xml (fst s)))
   \<Longrightarrow> rp_content (fst (calls cs s)) = []
       \<or> rp_content (fst (calls cs s))
           = spec_report_text (outcome (rp_xml (fst (calls cs s))))"
proof (induction cs s rule: calls.induct)
  case (1 s)
  then show ?case by simp
next
  case (2 cs p lg)
  have "rp_content (fst (ReportPage_enter p lg)) = []
      \<or> rp_content (fst (ReportPage_enter p lg))
          = spec_report_text (outcome (rp_xml (fst (ReportPage_enter p lg))))"
  proof (cases "rp_content p = []")
    case True
    then show ?thesis by (simp add: ReportPage_enter_empty)
  next
    case False
    with "2.prems" show ?thesis by (simp add: ReportPage_enter_nonempty)
  qed
  then show ?case using "2.IH" by simp
next
  case (3 cs p lg)
  then show ?case by (simp add: build_results_table_def)
next
  case (4 exception cs p lg)
  then show ?case by (simp add: ReportPage_exit_def)
qed

lemma calls_rp_xml:
  "rp_xml (fst (calls cs s)) = rp_xml (fst s)"
proof (induction cs s rule: calls.induct)
  case (2 cs p lg)
  then show ?case
    by (cases "rp_content p = []") (simp_all add: ReportPage_enter_empty ReportPage_enter_nonempty)
qed (simp_all add: build_results_table_def ReportPage_exit_def)

lemma calls_from_init_content:
  "rp_content (fst (calls cs (ReportPage_init xml, lg))) = []
   \<or> rp_content (fst (calls cs (ReportPage_init xml, lg)))
       = spec_report_text (outcome (rp_xml (fst (calls cs (ReportPage_init xml, lg)))))"
  by (rule calls_content) (simp add: ReportPage_init_def)

lemma enter_exit_enter:
  assumes inv: "rp_content p = [] \<or> rp_content p = spec_report_text (outcome (rp_xml p))"
  shows "content (fst (ReportPage_enter (ReportPage_exit (fst (ReportPage_enter p lg1)) exception) lg2))
           = content (fst (ReportPage_enter p lg1))
         \<and> content (ReportPage_exit (fst (ReportPage_enter p lg1)) exception) = []"
proof -
  let ?p1 = "fst (ReportPage_enter p lg1)"
  let ?p2 = "ReportPage_exit ?p1 exception"
  have x1: "rp_xml ?p1 = rp_xml p"
    by (cases "rp_content p = []") (simp_all add: ReportPage_enter_empty ReportPage_enter_nonempty)
  have c1: "rp_content ?p1 = spec_report_text (outcome (rp_xml p))"
  proof (cases "rp_content p = []")
    case True
    then show ?thesis by (simp add: ReportPage_enter_empty)
  next
    case False
    with inv show ?thesis by (simp add: ReportPage_enter_nonempty)
  qed
  have c2: "rp_content ?p2 = []" and x2: "rp_xml ?p2 = rp_xml p"
    using x1 by (simp_all add: ReportPage_exit_def)
  have "rp_content (fst (ReportPage_enter ?p2 lg2)) = spec_report_text (outcome (rp_xml p))"
    using c2 x2 by (simp add: ReportPage_enter_empty)
  with c1 c2 show ?thesis by (simp add: content_def)
qed

text \<open>
  C2. For every document, entering a page whose buffer is empty builds the report text and
  stores it: the title line, then the five lines Total, Passed, Failed, Skipped, Errored,
  each a label, a colon and a space, the decimal value of that counter of the document's
  outcome, and a newline. The page returned has this text as its content.
\<close>

theorem enter_builds_report:
  "rp_content p = [] \<Longrightarrow>
     content (fst (ReportPage_enter p lg)) = spec_report_text (outcome (rp_xml p))
     \<and> content (fst (ReportPage_enter p lg))
         = ''<h1>Test report:</h1>\<newline>''
           @ ''Total: '' @ str_int (total (outcome (rp_xml p))) @ ''\<newline>''
           @ ''Passed: '' @ str_int (passed (outcome (rp_xml p))) @ ''\<newline>''
           @ ''Failed: '' @ str_int (failed (outcome (rp_xml p))) @ ''\<newline>''
           @ ''Skipped: '' @ str_int (skipped (outcome (rp_xml p))) @ ''\<newline>''
           @ ''Errored: '' @ str_int (errored (outcome (rp_xml p))) @ ''\<newline>''
     \<and> rp_xml (fst (ReportPage_enter p lg)) = rp_xml p"
  by (simp add: ReportPage_enter_empty content_def spec_report_text_def spec_counter_line_def)

theorem enter_builds_report_witness:
  "rp_content (ReportPage_init (TestXmlFromJUnit_init
       \<lparr>jx_name = ''pytest'', jx_tests = 10, jx_skipped = 1, jx_failures = 2,
         jx_errors = 0, jx_suites = []\<rparr>)) = []
   \<and> content (fst (ReportPage_enter (ReportPage_init (TestXmlFromJUnit_init
       \<lparr>jx_name = ''pytest'', jx_tests = 10, jx_skipped = 1, jx_failures = 2,
         jx_errors = 0, jx_suites = []\<rparr>)) []))
     = ''<h1>Test report:</h1>\<newline>Total: 10\<newline>Passed: 7\<newline>Failed: 2\<newline>Skipped: 1\<newline>Errored: 0\<newline>''"
proof -
  let ?p = "ReportPage_init (TestXmlFromJUnit_init
       \<lparr>jx_name = ''pytest'', jx_tests = 10, jx_skipped = 1, jx_failures = 2,
         jx_errors = 0, jx_suites = []\<rparr>)"
  have e: "rp_content ?p = []"
    by (simp add: ReportPage_init_def)
  have t: "spec_report_text (outcome (rp_xml ?p))
     = ''<h1>Test report:</h1>\<newline>Total: 10\<newline>Passed: 7\<newline>Failed: 2\<newline>Skipped: 1\<newline>Errored: 0\<newline>''"
    by (simp add: ReportPage_init_def TestXmlFromJUnit_init_def Outcome_init_def
        spec_report_text_def spec_counter_line_def
        total_def passed_def failed_def skipped_def errored_def
        str_int_def str_nat.simps digit_char_def)
  have "content (fst (ReportPage_enter ?p [])) = spec_report_text (outcome (rp_xml ?p))"
    using enter_builds_report [OF e, of "[]"] by blast
  with e t show ?thesis by simp
qed

text \<open>
  C6. Leaving the scope of a page clears its buffer whatever happened in the block:
  \<^verbatim>\<open>__exit__\<close> stores the empty string for every page and every exception argument, and
  after a \<^verbatim>\<open>with\<close> statement the content is empty whether the block returned a value or
  raised, while the result of the block, exception included, reaches the caller.
\<close>

theorem exit_clears_buffer:
  "content (ReportPage_exit p exception) = []
   \<and> content (fst (snd (with_ReportPage page lg body))) = []
   \<and> fst (with_ReportPage page lg body)
       = fst (body (fst (ReportPage_enter page lg)) (snd (ReportPage_enter page lg)))"
  by (simp add: with_ReportPage_def ReportPage_exit_def content_def split: prod.splits)

text \<open>
  C7. Entering a page whose buffer is not empty changes nothing: the page, hence its
  content, is the one before, and nothing is built or logged.
\<close>

theorem enter_nonempty_is_noop:
  "rp_content p \<noteq> [] \<Longrightarrow>
     ReportPage_enter p lg = (p, lg)
     \<and> content (fst (ReportPage_enter p lg)) = content p"
  by (simp add: ReportPage_enter_nonempty)

theorem enter_nonempty_is_noop_witness:
  "rp_content (fst (ReportPage_enter (ReportPage_init (TestXmlFromJUnit_init
       \<lparr>jx_name = ''pytest'', jx_tests = 10, jx_skipped = 1, jx_failures = 2,
         jx_errors = 0, jx_suites = []\<rparr>)) [])) \<noteq> []
   \<and> content (fst (ReportPage_enter (fst (ReportPage_enter (ReportPage_init
       (TestXmlFromJUnit_init
         \<lparr>jx_name = ''pytest'', jx_tests = 10, jx_skipped = 1, jx_failures = 2,
           jx_errors = 0, jx_suites = []\<rparr>)) [])) []))
     = content (fst (ReportPage_enter (ReportPage_init (TestXmlFromJUnit_init
         \<lparr>jx_name = ''pytest'', jx_tests = 10, jx_skipped = 1, jx_failures = 2,
           jx_errors = 0, jx_suites = []\<rparr>)) []))"
proof -
  let ?p = "fst (ReportPage_enter (ReportPage_init (TestXmlFromJUnit_init
       \<lparr>jx_name = ''pytest'', jx_tests = 10, jx_skipped = 1, jx_failures = 2,
         jx_errors = 0, jx_suites = []\<rparr>)) [])"
  have ne: "rp_content ?p \<noteq> []"
    by (simp add: ReportPage_enter_def ReportPage_init_def build_results_table_def)
  from enter_nonempty_is_noop [OF ne, of "[]"] ne show ?thesis by simp
qed

text \<open>
  C8. For every page over a document, new or after any run of calls of its methods:
  entering, leaving and entering again gives the content of the first entry, character
  for character, and between the two the content is empty. The document is a value of
  the page and no method changes it.
\<close>

theorem reacquire_same_content:
  "content (fst (ReportPage_enter
       (ReportPage_exit (fst (ReportPage_enter (fst (calls cs (ReportPage_init xml, lg0))) lg1))
          exception) lg2))
     = content (fst (ReportPage_enter (fst (calls cs (ReportPage_init xml, lg0))) lg1))
   \<and> content (ReportPage_exit
         (fst (ReportPage_enter (fst (calls cs (ReportPage_init xml, lg0))) lg1)) exception) = []
   \<and> content (fst (ReportPage_enter (fst (calls cs (ReportPage_init xml, lg0))) lg1))
       = spec_report_text (outcome xml)"
proof -
  let ?p = "fst (calls cs (ReportPage_init xml, lg0))"
  have inv: "rp_content ?p = [] \<or> rp_content ?p = spec_report_text (outcome (rp_xml ?p))"
    by (rule calls_from_init_content)
  have x: "rp_xml ?p = xml"
    using calls_rp_xml [of cs "(ReportPage_init xml, lg0)"] by (simp add: ReportPage_init_def)
  have "content (fst (ReportPage_enter ?p lg1)) = spec_report_text (outcome (rp_xml ?p))"
  proof (cases "rp_content ?p = []")
    case True
    then show ?thesis by (simp add: ReportPage_enter_empty content_def)
  next
    case False
    with inv show ?thesis by (simp add: ReportPage_enter_nonempty content_def)
  qed
  with x enter_exit_enter [OF inv, of lg1 exception lg2] show ?thesis by simp
qed

theorem reacquire_same_content_witness:
  "content (fst (ReportPage_enter (ReportPage_exit (fst (ReportPage_enter
       (fst (calls [Enter, Build, Enter] (ReportPage_init (TestXmlFromJUnit_init
          \<lparr>jx_name = ''pytest'', jx_tests = 3, jx_skipped = 0, jx_failures = 1,
            jx_errors = 0, jx_suites = []\<rparr>), []))) [])) None) []))
     = ''<h1>Test report:</h1>\<newline>Total: 3\<newline>Passed: 2\<newline>Failed: 1\<newline>Skipped: 0\<newline>Errored: 0\<newline>''"
proof -
  let ?x = "TestXmlFromJUnit_init
          \<lparr>jx_name = ''pytest'', jx_tests = 3, jx_skipped = 0, jx_failures = 1,
            jx_errors = 0, jx_suites = []\<rparr>"
  have t: "spec_report_text (outcome ?x)
     = ''<h1>Test report:</h1>\<newline>Total: 3\<newline>Passed: 2\<newline>Failed: 1\<newline>Skipped: 0\<newline>Errored: 0\<newline>''"
    by (simp add: TestXmlFromJUnit_init_def Outcome_init_def
        spec_report_text_def spec_counter_line_def
        total_def passed_def failed_def skipped_def errored_def
        str_int_def str_nat.simps digit_char_def)
  from reacquire_same_content [of "[Enter, Build, Enter]" ?x "[]" "[]" None "[]"] t
  show ?thesis by (simp only:)
qed

text \<open>
  C10. A direct call of build_results_table returns the report text and leaves the page
  as it was: the content after the call is the content before it.
\<close>

theorem build_results_table_keeps_buffer:
  "fst (snd (build_results_table p lg)) = p
   \<and> content (fst (snd (build_results_table p lg))) = content p
   \<and> fst (build_results_table p lg) = spec_report_text (outcome (rp_xml p))"
  by (simp add: build_results_table_page build_results_table_text)

section \<open>Concrete runs\<close>

theorem status_binary_witness:
  "status (Testcase_init \<lparr>jc_name = ''test_x'', jc_classname = ''pkg.Mod'',
                           jc_result = Some JFailure\<rparr>) = ''Failed''
   \<and> status (Testcase_init \<lparr>jc_name = ''test_y'', jc_classname = ''pkg.Mod'',
                             jc_result = None\<rparr>) = ''Passed''"
  using status_binary [of "\<lparr>jc_name = ''test_x'', jc_classname = ''pkg.Mod'',
                            jc_result = Some JFailure\<rparr>"]
    status_binary [of "\<lparr>jc_name = ''test_y'', jc_classname = ''pkg.Mod'',
                        jc_result = None\<rparr>"]
  by simp

theorem Testcase_name_prefix_witness:
  "Testcase_name (Testcase_init \<lparr>jc_name = ''test_x'', jc_classname = ''pkg.Mod'',
                                  jc_result = Some JFailure\<rparr>) True = ''pkg.Mod:test_x''
   \<and> Testcase_name (Testcase_init \<lparr>jc_name = ''test_x'', jc_classname = ''pkg.Mod'',
                                    jc_result = Some JFailure\<rparr>) False = ''test_x''"
  using Testcase_name_prefix [of "\<lparr>jc_name = ''test_x'', jc_classname = ''pkg.Mod'',
                                   jc_result = Some JFailure\<rparr>"]
  by simp

theorem iteration_in_document_order_witness:
  "fst (Testsuite_iterate (Testsuite_init
      \<lparr>js_name = ''s'', js_cases =
         [\<lparr>jc_name = ''a'', jc_classname = ''m'', jc_result = None\<rparr>,
          \<lparr>jc_name = ''b'', jc_classname = ''m'', jc_result = Some JError\<rparr>]\<rparr>))
     = Inr [Testcase_init \<lparr>jc_name = ''a'', jc_classname = ''m'', jc_result = None\<rparr>,
            Testcase_init \<lparr>jc_name = ''b'', jc_classname = ''m'', jc_result = Some JError\<rparr>]
   \<and> fst (Testsuites_iterate (Testsuites_init
      \<lparr>jx_name = ''r'', jx_tests = 0, jx_skipped = 0, jx_failures = 0, jx_errors = 0,
        jx_suites = []\<rparr>)) = Inr []"
  using iteration_in_document_order
    [of "\<lparr>jx_name = ''r'', jx_tests = 0, jx_skipped = 0, jx_failures = 0, jx_errors = 0,
          jx_suites = []\<rparr>"
        "\<lparr>js_name = ''s'', js_cases =
           [\<lparr>jc_name = ''a'', jc_classname = ''m'', jc_result = None\<rparr>,
            \<lparr>jc_name = ''b'', jc_classname = ''m'', jc_result = Some JError\<rparr>]\<rparr>"]
  by simp

theorem exit_clears_buffer_witness:
  "content (fst (snd (with_ReportPage
      (ReportPage_init (TestXmlFromJUnit_init
         \<lparr>jx_name = ''r'', jx_tests = 1, jx_skipped = 0, jx_failures = 0, jx_errors = 0,
           jx_suites = []\<rparr>)) []
      (\<lambda>p lg. (Inl (Raised ''boom'') :: exn + unit, p, lg))))) = []
   \<and> fst (with_ReportPage
      (ReportPage_init (TestXmlFromJUnit_init
         \<lparr>jx_name = ''r'', jx_tests = 1, jx_skipped = 0, jx_failures = 0, jx_errors = 0,
           jx_suites = []\<rparr>)) []
      (\<lambda>p lg. (Inl (Raised ''boom'') :: exn + unit, p, lg))) = Inl (Raised ''boom'')"
  using exit_clears_buffer
    [of "ReportPage_init (TestXmlFromJUnit_init
           \<lparr>jx_name = ''r'', jx_tests = 1, jx_skipped = 0, jx_failures = 0, jx_errors = 0,
             jx_suites = []\<rparr>)" None
        "ReportPage_init (TestXmlFromJUnit_init
           \<lparr>jx_name = ''r'', jx_tests = 1, jx_skipped = 0, jx_failures = 0, jx_errors = 0,
             jx_suites = []\<rparr>)" "[]"
        "\<lambda>p lg. (Inl (Raised ''boom'') :: exn + unit, p, lg)"]
  by simp

theorem build_results_table_keeps_buffer_witness:
  "content (fst (snd (build_results_table
      (ReportPage_init (TestXmlFromJUnit_init
         \<lparr>jx_name = ''r'', jx_tests = 1, jx_skipped = 0, jx_failures = 0, jx_errors = 0,
           jx_suites = []\<rparr>)) []))) = []"
  using build_results_table_keeps_buffer
    [of "ReportPage_init (TestXmlFromJUnit_init
           \<lparr>jx_name = ''r'', jx_tests = 1, jx_skipped = 0, jx_failures = 0, jx_errors = 0,
             jx_suites = []\<rparr>)" "[]"]
  by (simp add: ReportPage_init_def content_def)

end
